theory Spec2Isabelle
  imports Main "HOL-Library.AList" "HOL-Library.Sublist"
begin

section \<open>Python exceptions\<close>

text \<open>
  Every exception the modelled code can raise is a value. The payload of
  \<open>ValueError\<close>, \<open>TypeError\<close> and \<open>AttributeError\<close> is the message or the
  offending name. \<open>UsageError\<close> is the exit of \<^verbatim>\<open>argparse\<close> with status 2 after a
  usage message, \<open>HelpExit\<close> its exit with status 0 after \<^verbatim>\<open>--help\<close>, and
  \<open>ArgumentError\<close> the exception \<^verbatim>\<open>add_argument\<close> raises for an option string that
  is already taken.
\<close>

datatype usage =
    MissingRequired "string list"
  | ExpectedOneArgument string
  | InvalidValue string string
  | UnrecognizedArguments "string list"

datatype py_error =
    ValueError string
  | TypeError string
  | AttributeError string
  | IndexError
  | ZeroDivisionError
  | StopIteration
  | FileExistsError
  | NotADirectoryError
  | FileNotFoundError
  | ArgumentError string
  | UsageError usage
  | HelpExit
  | OutsideModel string

section \<open>plotting/utils/plot\_style.py\<close>

subsection \<open>get\_colormap\<close>

text \<open>
  \<^verbatim>\<open>cmocean\<close> is a library: its module dictionary \<^verbatim>\<open>cmocean.cm.__dict__\<close> is the
  parameter \<open>cm_dict\<close>, and the parameter \<open>heat\<close> is the value of the expression
  \<^verbatim>\<open>cmocean.tools.crop_by_percent(cmocean.cm.tarn, 30, which='both', N=None)\<close>.
\<close>

definition mapping :: "'c \<Rightarrow> (string \<times> 'c) list" where
  "mapping heat = [(''heatmap'', heat)]"

definition no_colormap_message :: "string \<Rightarrow> string" where
  "no_colormap_message variable_name =
     ''No colormap defined for variable '' @ [CHR 0x27] @ variable_name @ [CHR 0x27]
       @ ''. Please define a mapping in mapping).''"

definition get_colormap :: "'c \<Rightarrow> (string \<rightharpoonup> 'c) \<Rightarrow> string \<Rightarrow> py_error + 'c" where
  "get_colormap heat cm_dict variable_name =
     (case map_of (mapping heat) variable_name of
        Some c \<Rightarrow> Inr c
      | None \<Rightarrow>
          (case cm_dict variable_name of
             Some c \<Rightarrow> Inr c
           | None \<Rightarrow> Inl (ValueError (no_colormap_message variable_name))))"

subsection \<open>get\_ensemble\_colors and get\_member\_color\<close>



text \<open>A list comprehension whose element expression may raise: the first exception wins.\<close>

fun comprehension :: "('a \<Rightarrow> py_error + 'b) \<Rightarrow> 'a list \<Rightarrow> py_error + 'b list" where
  "comprehension f [] = Inr []"
| "comprehension f (x # xs) =
     (case f x of
        Inl e \<Rightarrow> Inl e
      | Inr y \<Rightarrow> (case comprehension f xs of Inl e \<Rightarrow> Inl e | Inr ys \<Rightarrow> Inr (y # ys)))"





section \<open>Python values\<close>

text \<open>
  The values a configuration field can hold: \<^verbatim>\<open>None\<close>, a \<^verbatim>\<open>bool\<close>, an \<^verbatim>\<open>int\<close>, a
  \<^verbatim>\<open>str\<close> or a \<^verbatim>\<open>pathlib.Path\<close>. A path is its anchor (absolute or relative) and its
  components; a character of a string is a code point below 256.
\<close>

datatype path = Path (is_absolute: bool) (parts: "string list")

datatype pyval = VNone | VBool bool | VInt int | VStr string | VPath path

text \<open>Python's \<^verbatim>\<open>==\<close>: a \<^verbatim>\<open>bool\<close> is the integer 0 or 1.\<close>

fun py_eq :: "pyval \<Rightarrow> pyval \<Rightarrow> bool" where
  "py_eq (VBool a) (VInt n) = ((if a then 1 else 0) = n)"
| "py_eq (VInt n) (VBool a) = (n = (if a then 1 else 0))"
| "py_eq x y = (x = y)"

text \<open>\<^verbatim>\<open>x in [..]\<close> and \<^verbatim>\<open>x not in [..]\<close> on a list compare with \<^verbatim>\<open>==\<close>.\<close>

definition py_in :: "pyval \<Rightarrow> pyval list \<Rightarrow> bool" where
  "py_in x xs = list_ex (py_eq x) xs"

subsection \<open>str and repr\<close>

definition digit_char :: "nat \<Rightarrow> char" where
  "digit_char d = char_of (48 + d)"

fun show_nat :: "nat \<Rightarrow> string" where
  "show_nat n = (if n < 10 then [digit_char n] else show_nat (n div 10) @ [digit_char (n mod 10)])"

declare show_nat.simps [simp del]

definition show_int :: "int \<Rightarrow> string" where
  "show_int i = (if i < 0 then CHR ''-'' # show_nat (nat (- i)) else show_nat (nat i))"

text \<open>\<^verbatim>\<open>sep.join(xs)\<close>.\<close>

fun join :: "string \<Rightarrow> string list \<Rightarrow> string" where
  "join sep [] = []"
| "join sep [x] = x"
| "join sep (x # y # ys) = x @ sep @ join sep (y # ys)"

definition as_posix :: "path \<Rightarrow> string" where
  "as_posix p =
     (if parts p = [] then (if is_absolute p then ''/'' else ''.'')
      else (if is_absolute p then ''/'' else []) @ join ''/'' (parts p))"

definition hex_digit :: "nat \<Rightarrow> char" where
  "hex_digit d = (if d < 10 then char_of (48 + d) else char_of (87 + d))"

definition printable :: "char \<Rightarrow> bool" where
  "printable c =
     (let n = (of_char c :: nat) in (32 \<le> n \<and> n < 127) \<or> (161 \<le> n \<and> n \<noteq> 173))"

text \<open>
  How \<^verbatim>\<open>repr\<close> of a \<^verbatim>\<open>str\<close> writes one character inside the quote \<open>q\<close>: the quote and
  the backslash are escaped, tab, line feed and carriage return have their letters,
  any other character that is not printable is written as a two-digit hexadecimal
  escape.
\<close>

definition escape_char :: "char \<Rightarrow> char \<Rightarrow> string" where
  "escape_char q c =
     (if c = q \<or> c = CHR 0x5C then [CHR 0x5C, c]
      else if c = CHR 0x09 then [CHR 0x5C, CHR ''t'']
      else if c = CHR 0x0A then [CHR 0x5C, CHR ''n'']
      else if c = CHR 0x0D then [CHR 0x5C, CHR ''r'']
      else if printable c then [c]
      else [CHR 0x5C, CHR ''x'', hex_digit (of_char c div 16), hex_digit (of_char c mod 16)])"

definition repr_str :: "string \<Rightarrow> string" where
  "repr_str s =
     (let q = (if CHR 0x27 \<in> set s \<and> CHR 0x22 \<notin> set s then CHR 0x22 else CHR 0x27)
      in q # concat (map (escape_char q) s) @ [q])"

fun py_str :: "pyval \<Rightarrow> string" where
  "py_str VNone = ''None''"
| "py_str (VBool b) = (if b then ''True'' else ''False'')"
| "py_str (VInt i) = show_int i"
| "py_str (VStr s) = s"
| "py_str (VPath p) = as_posix p"

fun py_repr :: "pyval \<Rightarrow> string" where
  "py_repr (VStr s) = repr_str s"
| "py_repr (VPath p) = ''PosixPath('' @ repr_str (as_posix p) @ '')''"
| "py_repr v = py_str v"

text \<open>\<^verbatim>\<open>s.ljust(width)\<close>.\<close>

definition ljust :: "string \<Rightarrow> nat \<Rightarrow> string" where
  "ljust s width = s @ replicate (width - length s) CHR '' ''"

subsection \<open>int(s) and Path(s)\<close>

definition is_space :: "char \<Rightarrow> bool" where
  "is_space c = ((of_char c :: nat) \<in> {9, 10, 11, 12, 13, 28, 29, 30, 31, 32, 133, 160})"

definition is_digit :: "char \<Rightarrow> bool" where
  "is_digit c = (48 \<le> (of_char c :: nat) \<and> (of_char c :: nat) \<le> 57)"

text \<open>
  The digits of a decimal literal, single underscores allowed between digits; \<open>seen\<close>
  says that the character before was a digit.
\<close>

fun digits_value :: "nat \<Rightarrow> bool \<Rightarrow> string \<Rightarrow> nat option" where
  "digits_value acc seen [] = (if seen then Some acc else None)"
| "digits_value acc seen (c # cs) =
     (if is_digit c then digits_value (10 * acc + (of_char c - 48)) True cs
      else if c = CHR ''_'' \<and> seen \<and> cs \<noteq> [] then digits_value acc False cs
      else None)"

definition strip :: "string \<Rightarrow> string" where
  "strip s = rev (dropWhile is_space (rev (dropWhile is_space s)))"

text \<open>\<^verbatim>\<open>int(s)\<close> in base 10; \<open>None\<close> is its \<^verbatim>\<open>ValueError\<close>.\<close>

definition py_int :: "string \<Rightarrow> int option" where
  "py_int s =
     (case strip s of
        [] \<Rightarrow> None
      | c # cs \<Rightarrow>
          if c = CHR ''-'' then map_option (\<lambda>n. - int n) (digits_value 0 False cs)
          else if c = CHR ''+'' then map_option int (digits_value 0 False cs)
          else map_option int (digits_value 0 False (c # cs)))"

fun split_on :: "char \<Rightarrow> string \<Rightarrow> string list" where
  "split_on sep [] = [[]]"
| "split_on sep (c # cs) =
     (if c = sep then [] # split_on sep cs
      else (case split_on sep cs of [] \<Rightarrow> [[c]] | w # ws \<Rightarrow> (c # w) # ws))"

text \<open>\<^verbatim>\<open>Path(s)\<close>: empty components and \<^verbatim>\<open>.\<close> components are dropped.\<close>

definition parse_path :: "string \<Rightarrow> path" where
  "parse_path s =
     Path (s \<noteq> [] \<and> hd s = CHR ''/'')
          (filter (\<lambda>c. c \<noteq> [] \<and> c \<noteq> ''.'') (split_on CHR ''/'' s))"

section \<open>The filesystem\<close>

text \<open>
  What \<^verbatim>\<open>__post_init__\<close> does to the disk: a filesystem maps a path to the kind of
  node found there; the anchor (a path with no components) is a directory that always
  exists. Symbolic links, \<^verbatim>\<open>..\<close> components and permissions are not modelled.
\<close>

datatype node = File | Dir

type_synonym filesystem = "path \<rightharpoonup> node"

definition parent :: "path \<Rightarrow> path" where
  "parent p = Path (is_absolute p) (butlast (parts p))"

definition exists :: "filesystem \<Rightarrow> path \<Rightarrow> bool" where
  "exists fs p = (parts p = [] \<or> fs p \<noteq> None)"

definition is_dir :: "filesystem \<Rightarrow> path \<Rightarrow> bool" where
  "is_dir fs p = (parts p = [] \<or> fs p = Some Dir)"

text \<open>The path itself and the paths above it, the anchor left out, outermost first.\<close>

definition lineage :: "path \<Rightarrow> path list" where
  "lineage p = map (\<lambda>k. Path (is_absolute p) (take k (parts p))) [1..<Suc (length (parts p))]"

text \<open>
  \<^verbatim>\<open>p.mkdir(parents=True, exist_ok=True)\<close>: a regular file at the path or above it makes
  the call raise and nothing is created; otherwise every missing directory is made.
\<close>

definition mkdir_parents :: "filesystem \<Rightarrow> path \<Rightarrow> (py_error + unit) \<times> filesystem" where
  "mkdir_parents fs p =
     (if list_ex (\<lambda>q. fs q = Some File) (lineage p)
      then (Inl (if fs p = Some File then FileExistsError else NotADirectoryError), fs)
      else (Inr (), fold (\<lambda>q f. f(q \<mapsto> Dir)) (lineage p) fs))"

text \<open>\<^verbatim>\<open>p.touch()\<close>: an existing node is kept, a missing one becomes an empty file.\<close>

definition touch :: "filesystem \<Rightarrow> path \<Rightarrow> (py_error + unit) \<times> filesystem" where
  "touch fs p =
     (if exists fs p then (Inr (), fs)
      else if is_dir fs (parent p) then (Inr (), fs(p \<mapsto> File))
      else (Inl (if fs (parent p) = Some File then NotADirectoryError else FileNotFoundError), fs))"

section \<open>Dataclasses\<close>

text \<open>
  A declared type is a primitive class or \<^verbatim>\<open>Optional\<close> of one. A field is what
  \<^verbatim>\<open>dataclasses.fields\<close> returns for it: name, declared type, default (\<^verbatim>\<open>MISSING\<close> when
  none is declared) and metadata. A dataclass is its name and its fields in declaration
  order, inherited fields first; an instance is its class and its attribute dictionary.
\<close>

datatype prim = PInt | PStr | PBool | PPath

datatype pytype = Plain prim | Optional prim

datatype default = MISSING | Default pyval

record Field =
  fld_name :: string
  fld_type :: pytype
  fld_default :: default
  fld_metadata :: "(string \<times> string) list"

record dataclass =
  cls_name :: string
  cls_fields :: "Field list"

record inst =
  inst_class :: dataclass
  inst_dict :: "(string \<times> pyval) list"

definition metadata_get :: "(string \<times> string) list \<Rightarrow> string \<Rightarrow> string \<Rightarrow> string" where
  "metadata_get md key fallback = (case map_of md key of None \<Rightarrow> fallback | Some v \<Rightarrow> v)"

definition getattr :: "inst \<Rightarrow> string \<Rightarrow> py_error + pyval" where
  "getattr self name =
     (case map_of (inst_dict self) name of
        None \<Rightarrow> Inl (AttributeError name)
      | Some v \<Rightarrow> Inr v)"

section \<open>scripts/utils/base\_config.py: BaseConfig\<close>

definition BaseConfig :: dataclass where
  "BaseConfig =
     \<lparr>cls_name = ''BaseConfig'',
      cls_fields =
        [\<lparr>fld_name = ''verbose'', fld_type = Plain PInt, fld_default = Default (VInt 0),
          fld_metadata = [(''help'',
            ''Increase verbosity level (0: WARNING, 1: INFO, 2: INFO_DETAILED, 3: DEBUG)'')]\<rparr>,
         \<lparr>fld_name = ''log_file'', fld_type = Plain PPath, fld_default = Default VNone,
          fld_metadata = [(''help'',
            ''Path to the log file where logs will be written. If None, logs will not be saved to a file.'')]\<rparr>,
         \<lparr>fld_name = ''log_mode'', fld_type = Plain PStr, fld_default = Default (VStr ''w''),
          fld_metadata = [(''help'',
            ''Mode for opening the log file ('' @ [CHR 0x27] @ ''w'' @ [CHR 0x27] @ '' for write, ''
              @ [CHR 0x27] @ ''a'' @ [CHR 0x27] @ '' for append)'')]\<rparr>]\<rparr>"

text \<open>A dataclass that inherits from \<open>BaseConfig\<close> and declares the fields \<open>own\<close>.\<close>

definition config_subclass :: "string \<Rightarrow> Field list \<Rightarrow> dataclass" where
  "config_subclass name own = \<lparr>cls_name = name, cls_fields = cls_fields BaseConfig @ own\<rparr>"

subsection \<open>\_\_post\_init\_\_\<close>

definition invalid_verbosity :: "pyval \<Rightarrow> string" where
  "invalid_verbosity verbose =
     ''Invalid verbosity level: '' @ py_str verbose @ ''. Must be 0, 1, 2, or 3.''"

definition invalid_log_mode :: "pyval \<Rightarrow> string" where
  "invalid_log_mode log_mode =
     ''Invalid log mode: '' @ py_str log_mode @ ''. Must be '' @ [CHR 0x27] @ ''w'' @ [CHR 0x27]
       @ '' or '' @ [CHR 0x27] @ ''a'' @ [CHR 0x27] @ ''.''"

text \<open>
  The block under \<^verbatim>\<open># log_file\<close>: nothing for \<^verbatim>\<open>None\<close>; for a path that does not
  exist, the parent directories are made and the file is touched. A value that is
  neither has no method \<^verbatim>\<open>exists\<close>.
\<close>

definition ensure_log_file :: "filesystem \<Rightarrow> pyval \<Rightarrow> (py_error + unit) \<times> filesystem" where
  "ensure_log_file fs log_file =
     (case log_file of
        VNone \<Rightarrow> (Inr (), fs)
      | VPath p \<Rightarrow>
          if exists fs p then (Inr (), fs)
          else (case mkdir_parents fs (parent p) of
                  (Inl e, fs') \<Rightarrow> (Inl e, fs')
                | (Inr _, fs') \<Rightarrow> touch fs' p)
      | _ \<Rightarrow> (Inl (AttributeError ''exists''), fs))"

definition post_init :: "inst \<Rightarrow> filesystem \<Rightarrow> (py_error + unit) \<times> filesystem" where
  "post_init self fs =
     (case getattr self ''verbose'' of
        Inl e \<Rightarrow> (Inl e, fs)
      | Inr verbose \<Rightarrow>
          if \<not> py_in verbose [VInt 0, VInt 1, VInt 2, VInt 3]
          then (Inl (ValueError (invalid_verbosity verbose)), fs)
          else
            (case getattr self ''log_file'' of
               Inl e \<Rightarrow> (Inl e, fs)
             | Inr log_file \<Rightarrow>
                 (case ensure_log_file fs log_file of
                    (Inl e, fs') \<Rightarrow> (Inl e, fs')
                  | (Inr _, fs') \<Rightarrow>
                      (case getattr self ''log_mode'' of
                         Inl e \<Rightarrow> (Inl e, fs')
                       | Inr log_mode \<Rightarrow>
                           if \<not> py_in log_mode [VStr ''w'', VStr ''a'']
                           then (Inl (ValueError (invalid_log_mode log_mode)), fs')
                           else (Inr (), fs')))))"

subsection \<open>Construction\<close>

text \<open>
  The \<^verbatim>\<open>__init__\<close> that \<^verbatim>\<open>@dataclass\<close> generates: every field takes its keyword
  argument, or else its default; a field with neither is a \<^verbatim>\<open>TypeError\<close>.
\<close>

fun init_fields :: "Field list \<Rightarrow> (string \<times> pyval) list \<Rightarrow> py_error + (string \<times> pyval) list" where
  "init_fields [] kwargs = Inr []"
| "init_fields (f # fs) kwargs =
     (case (case map_of kwargs (fld_name f) of
              Some v \<Rightarrow> Inr v
            | None \<Rightarrow> (case fld_default f of
                         Default d \<Rightarrow> Inr d
                       | MISSING \<Rightarrow> Inl (TypeError (fld_name f)))) of
        Inl e \<Rightarrow> Inl e
      | Inr v \<Rightarrow>
          (case init_fields fs kwargs of
             Inl e \<Rightarrow> Inl e
           | Inr rest \<Rightarrow> Inr ((fld_name f, v) # rest)))"

text \<open>
  \<^verbatim>\<open>cls(**kwargs)\<close>: a keyword that names no field is a \<^verbatim>\<open>TypeError\<close>; the attributes
  are set; \<^verbatim>\<open>__post_init__\<close> runs, and the instance is returned only if it does not
  raise.
\<close>

definition construct ::
  "dataclass \<Rightarrow> (string \<times> pyval) list \<Rightarrow> filesystem \<Rightarrow> (py_error + inst) \<times> filesystem" where
  "construct cls kwargs fs =
     (case find (\<lambda>k. k \<notin> set (map fld_name (cls_fields cls))) (map fst kwargs) of
        Some k \<Rightarrow> (Inl (TypeError k), fs)
      | None \<Rightarrow>
          (case init_fields (cls_fields cls) kwargs of
             Inl e \<Rightarrow> (Inl e, fs)
           | Inr d \<Rightarrow>
               (let self = \<lparr>inst_class = cls, inst_dict = d\<rparr>
                in case post_init self fs of
                     (Inl e, fs') \<Rightarrow> (Inl e, fs')
                   | (Inr _, fs') \<Rightarrow> (Inr self, fs'))))"

text \<open>\<^verbatim>\<open>BaseConfig(verbose=.., log_file=.., log_mode=..)\<close>.\<close>

definition new_BaseConfig ::
  "pyval \<Rightarrow> pyval \<Rightarrow> pyval \<Rightarrow> filesystem \<Rightarrow> (py_error + inst) \<times> filesystem" where
  "new_BaseConfig verbose log_file log_mode fs =
     construct BaseConfig
       [(''verbose'', verbose), (''log_file'', log_file), (''log_mode'', log_mode)] fs"

subsection \<open>describe\<close>

definition prim_name :: "prim \<Rightarrow> string" where
  "prim_name p = (case p of PInt \<Rightarrow> ''int'' | PStr \<Rightarrow> ''str'' | PBool \<Rightarrow> ''bool''
                  | PPath \<Rightarrow> ''pathlib.Path'')"

text \<open>\<^verbatim>\<open>str(inputfield.type)\<close>.\<close>

definition type_str :: "pytype \<Rightarrow> string" where
  "type_str T =
     (case T of
        Plain p \<Rightarrow> ''<class '' @ [CHR 0x27] @ prim_name p @ [CHR 0x27] @ ''>''
      | Optional p \<Rightarrow> ''typing.Optional['' @ prim_name p @ '']'')"

definition describe_header :: "inst \<Rightarrow> string" where
  "describe_header self =
     ''Instance of dataclass '' @ [CHR 0x27] @ cls_name (inst_class self) @ [CHR 0x27]
       @ '' has the following values:''"

definition describe_line :: "inst \<Rightarrow> Field \<Rightarrow> py_error + string" where
  "describe_line self inputfield =
     (let desc = metadata_get (fld_metadata inputfield) ''help'' []
      in case getattr self (fld_name inputfield) of
           Inl e \<Rightarrow> Inl e
         | Inr v \<Rightarrow>
             Inr (''  '' @ ljust (fld_name inputfield) 25 @ '': ''
                    @ ljust (type_str (fld_type inputfield)) 25 @ '' = '' @ py_repr v
                    @ ''  '' @ desc))"

text \<open>
  The result is the returned value and the text printed: with \<^verbatim>\<open>return_string\<close> the
  text is returned and nothing is printed, without it the text is printed and \<^verbatim>\<open>None\<close>
  is returned.
\<close>

definition describe :: "inst \<Rightarrow> bool \<Rightarrow> py_error + (string option \<times> string list)" where
  "describe self return_string =
     (case comprehension (describe_line self) (cls_fields (inst_class self)) of
        Inl e \<Rightarrow> Inl e
      | Inr field_lines \<Rightarrow>
          (let lines = describe_header self # field_lines;
               text = join [CHR 0x0A] lines
           in if return_string then Inr (Some text, []) else Inr (None, [text])))"

section \<open>argparse\<close>

text \<open>
  \<^verbatim>\<open>argparse\<close> is a library; this is the part of it that \<^verbatim>\<open>from_cli\<close> drives. A parser is
  the list of its actions in the order they were added (its description only shows in
  the help text). An action has its option strings, the namespace attribute it sets
  (\<open>dest\<close>), what it does, the converter given as \<^verbatim>\<open>type=\<close>, its default and whether it
  is required. \<^verbatim>\<open>store_true\<close> and \<^verbatim>\<open>store_false\<close> store a constant and take no
  argument.

  The command lines covered are those in which every token that begins with \<^verbatim>\<open>-\<close> is an
  option string of the parser written in full; for any other command line (an
  abbreviated option, \<^verbatim>\<open>--opt=value\<close>, a negative number, \<^verbatim>\<open>--\<close>) \<open>parse_args\<close>
  answers \<open>OutsideModel\<close> and nothing is said about it.
\<close>

datatype type_obj = Cls pytype | NoneType | BoolOfIntLambda

datatype action_kind = Store | StoreConst pyval | ShowHelp

record action =
  option_strings :: "string list"
  dest :: string
  act_kind :: action_kind
  act_type :: "type_obj option"
  act_default :: pyval
  act_required :: bool

text \<open>The keyword arguments \<^verbatim>\<open>from_cli\<close> passes to \<^verbatim>\<open>add_argument\<close>; \<open>None\<close> is a keyword not passed.\<close>

record kwargs =
  kw_help :: string
  kw_action :: "string option"
  kw_type :: "type_obj option"
  kw_default :: "pyval option"
  kw_required :: "bool option"

text \<open>\<^verbatim>\<open>ArgumentParser(...)\<close>: a new parser holds the help action.\<close>

definition ArgumentParser :: "action list" where
  "ArgumentParser =
     [\<lparr>option_strings = [''-h'', ''--help''], dest = ''help'', act_kind = ShowHelp,
       act_type = None, act_default = VNone, act_required = False\<rparr>]"

text \<open>The attribute name of an option: leading dashes stripped, inner dashes to underscores.\<close>

definition dest_of :: "string \<Rightarrow> string" where
  "dest_of option_string =
     map (\<lambda>c. if c = CHR ''-'' then CHR ''_'' else c) (dropWhile (\<lambda>c. c = CHR ''-'') option_string)"

definition new_action :: "string \<Rightarrow> action_kind \<Rightarrow> pyval \<Rightarrow> kwargs \<Rightarrow> action" where
  "new_action option_string k fallback kw =
     \<lparr>option_strings = [option_string], dest = dest_of option_string, act_kind = k,
      act_type = kw_type kw,
      act_default = (case kw_default kw of None \<Rightarrow> fallback | Some d \<Rightarrow> d),
      act_required = (case kw_required kw of None \<Rightarrow> False | Some r \<Rightarrow> r)\<rparr>"

text \<open>
  \<^verbatim>\<open>parser.add_argument(option_string, **kw)\<close> for one option string: an option without
  a name, an unknown action and an option string already in use raise.
\<close>

definition add_argument :: "action list \<Rightarrow> string \<Rightarrow> kwargs \<Rightarrow> py_error + action list" where
  "add_argument parser option_string kw =
     (if dest_of option_string = [] then Inl (ValueError ''dest= is required'')
      else
        (case (case kw_action kw of
                 None \<Rightarrow> Inr (new_action option_string Store VNone kw)
               | Some a \<Rightarrow>
                   if a = ''store'' then Inr (new_action option_string Store VNone kw)
                   else if a = ''store_true''
                     then Inr (new_action option_string (StoreConst (VBool True)) (VBool False) kw)
                   else if a = ''store_false''
                     then Inr (new_action option_string (StoreConst (VBool False)) (VBool True) kw)
                   else Inl (ValueError ''unknown action'')) of
           Inl e \<Rightarrow> Inl e
         | Inr a \<Rightarrow>
             if option_string \<in> set (concat (map option_strings parser))
             then Inl (ArgumentError option_string)
             else Inr (parser @ [a])))"

definition find_action :: "action list \<Rightarrow> string \<Rightarrow> action option" where
  "find_action parser token = find (\<lambda>a. token \<in> set (option_strings a)) parser"

definition outside_model :: "action list \<Rightarrow> string \<Rightarrow> bool" where
  "outside_model parser token =
     (token \<noteq> [] \<and> hd token = CHR ''-'' \<and> find_action parser token = None)"

text \<open>
  Calling the converter on an argument string; \<open>None\<close> is the \<^verbatim>\<open>ValueError\<close> or
  \<^verbatim>\<open>TypeError\<close> that \<^verbatim>\<open>argparse\<close> reports as an invalid value.
\<close>

fun convert :: "type_obj option \<Rightarrow> string \<Rightarrow> pyval option" where
  "convert None s = Some (VStr s)"
| "convert (Some (Cls (Plain PInt))) s = map_option VInt (py_int s)"
| "convert (Some (Cls (Plain PStr))) s = Some (VStr s)"
| "convert (Some (Cls (Plain PBool))) s = Some (VBool (s \<noteq> []))"
| "convert (Some (Cls (Plain PPath))) s = Some (VPath (parse_path s))"
| "convert (Some (Cls (Optional p))) s = None"
| "convert (Some NoneType) s = None"
| "convert (Some BoolOfIntLambda) s = map_option (\<lambda>i. VBool (i \<noteq> 0)) (py_int s)"

text \<open>Every action but the help action puts its default under its \<open>dest\<close>, unless that is set.\<close>

fun initial_namespace :: "action list \<Rightarrow> (string \<times> pyval) list \<Rightarrow> (string \<times> pyval) list" where
  "initial_namespace [] ns = ns"
| "initial_namespace (a # rest) ns =
     initial_namespace rest
       (if act_kind a = ShowHelp \<or> map_of ns (dest a) \<noteq> None then ns
        else ns @ [(dest a, act_default a)])"

text \<open>
  The tokens from left to right; the state is the namespace, the actions seen and the
  tokens no action took. A storing option takes the next token, which must not be an
  option; a constant-storing option takes none.
\<close>

fun consume ::
  "action list \<Rightarrow> (string \<times> pyval) list \<times> action list \<times> string list \<Rightarrow> string list
     \<Rightarrow> py_error + (string \<times> pyval) list \<times> action list \<times> string list" where
  "consume parser st [] = Inr st"
| "consume parser (ns, seen, extras) (t # ts) =
     (case find_action parser t of
        None \<Rightarrow> consume parser (ns, seen, extras @ [t]) ts
      | Some a \<Rightarrow>
          (case act_kind a of
             ShowHelp \<Rightarrow> Inl HelpExit
           | StoreConst c \<Rightarrow> consume parser (AList.update (dest a) c ns, a # seen, extras) ts
           | Store \<Rightarrow>
               (case ts of
                  [] \<Rightarrow> Inl (UsageError (ExpectedOneArgument t))
                | v # ts' \<Rightarrow>
                    if find_action parser v \<noteq> None then Inl (UsageError (ExpectedOneArgument t))
                    else
                      (case convert (act_type a) v of
                         None \<Rightarrow> Inl (UsageError (InvalidValue t v))
                       | Some x \<Rightarrow>
                           consume parser (AList.update (dest a) x ns, a # seen, extras) ts'))))"

text \<open>
  After the tokens, the actions not seen: a required one is reported, a string default
  still in the namespace is passed through the converter.
\<close>

fun unseen_defaults ::
  "action list \<Rightarrow> action list \<Rightarrow> (string \<times> pyval) list \<Rightarrow> string list
     \<Rightarrow> py_error + (string \<times> pyval) list \<times> string list" where
  "unseen_defaults [] seen ns required_actions = Inr (ns, required_actions)"
| "unseen_defaults (a # rest) seen ns required_actions =
     (if a \<in> set seen then unseen_defaults rest seen ns required_actions
      else if act_required a
        then unseen_defaults rest seen ns (required_actions @ [join ''/'' (option_strings a)])
      else
        (case act_default a of
           VStr s \<Rightarrow>
             if map_of ns (dest a) = Some (VStr s)
             then (case convert (act_type a) s of
                     None \<Rightarrow> Inl (UsageError (InvalidValue (join ''/'' (option_strings a)) s))
                   | Some x \<Rightarrow> unseen_defaults rest seen (AList.update (dest a) x ns) required_actions)
             else unseen_defaults rest seen ns required_actions
         | _ \<Rightarrow> unseen_defaults rest seen ns required_actions))"

text \<open>\<^verbatim>\<open>vars(parser.parse_args(argv))\<close>.\<close>

definition parse_args :: "action list \<Rightarrow> string list \<Rightarrow> py_error + (string \<times> pyval) list" where
  "parse_args parser argv =
     (case find (outside_model parser) argv of
        Some t \<Rightarrow> Inl (OutsideModel t)
      | None \<Rightarrow>
          (case consume parser (initial_namespace parser [], [], []) argv of
             Inl e \<Rightarrow> Inl e
           | Inr (ns, seen, extras) \<Rightarrow>
               (case unseen_defaults parser seen ns [] of
                  Inl e \<Rightarrow> Inl e
                | Inr (ns', required_actions) \<Rightarrow>
                    if required_actions \<noteq> [] then Inl (UsageError (MissingRequired required_actions))
                    else if extras \<noteq> [] then Inl (UsageError (UnrecognizedArguments extras))
                    else Inr ns')))"

section \<open>scripts/utils/base\_config.py: from\_cli\<close>

datatype origin = Union

text \<open>\<^verbatim>\<open>typing.get_origin\<close> and \<^verbatim>\<open>typing.get_args\<close>; \<^verbatim>\<open>Optional[T]\<close> is \<^verbatim>\<open>Union[T, None]\<close>.\<close>

fun get_origin :: "type_obj \<Rightarrow> origin option" where
  "get_origin (Cls (Optional p)) = Some Union"
| "get_origin x = None"

fun get_args :: "type_obj \<Rightarrow> type_obj list" where
  "get_args (Cls (Optional p)) = [Cls (Plain p), NoneType]"
| "get_args x = []"

definition arg_name_of :: "string \<Rightarrow> string" where
  "arg_name_of name = ''--'' @ map (\<lambda>c. if c = CHR ''_'' then CHR ''-'' else c) name"

text \<open>
  Lines 78 to 85, \<^verbatim>\<open>Handle Optional[X]\<close>: the type and the requiredness after them.
  \<^verbatim>\<open>next\<close> on an exhausted generator raises \<^verbatim>\<open>StopIteration\<close>.
\<close>

definition handle_optional :: "type_obj \<Rightarrow> bool \<Rightarrow> py_error + type_obj \<times> bool" where
  "handle_optional arg_type required =
     (let origin = get_origin arg_type;
          args = get_args arg_type
      in if origin = Some Union \<and> NoneType \<in> set args
         then (case find (\<lambda>a. a \<noteq> NoneType) args of
                 None \<Rightarrow> Inl StopIteration
               | Some a \<Rightarrow> Inr (a, False))
         else Inr (arg_type, required))"

text \<open>Lines 87 to 108: the call of \<^verbatim>\<open>add_argument\<close> for the field.\<close>

definition attach ::
  "action list \<Rightarrow> string \<Rightarrow> string \<Rightarrow> pyval \<Rightarrow> type_obj \<Rightarrow> bool \<Rightarrow> py_error + action list" where
  "attach parser arg_name help_text dflt arg_type required =
     (let cli_type = arg_type
      in if arg_type = Cls (Plain PBool)
         then add_argument parser arg_name
                \<lparr>kw_help = help_text @ (if \<not> required then '' (default: False)'' else []),
                 kw_action = Some (if dflt \<noteq> VBool True then ''store_true'' else ''store_false''),
                 kw_type = None, kw_default = None, kw_required = None\<rparr>
         else add_argument parser arg_name
                (if \<not> required
                 then \<lparr>kw_help = help_text, kw_action = None, kw_type = Some cli_type,
                        kw_default = Some dflt, kw_required = None\<rparr>
                 else \<lparr>kw_help = help_text, kw_action = None, kw_type = Some cli_type,
                        kw_default = None, kw_required = Some True\<rparr>))"

text \<open>The body of the loop over the fields, as written (lines 70 to 108).\<close>

definition add_field :: "action list \<Rightarrow> Field \<Rightarrow> py_error + action list" where
  "add_field parser fld =
     (let arg_name = arg_name_of (fld_name fld);
          help_text = metadata_get (fld_metadata fld) ''help'' [];
          required = (fld_default fld = MISSING);
          dflt = (case fld_default fld of MISSING \<Rightarrow> VNone | Default d \<Rightarrow> d);
          arg_type = (if fld_type fld \<noteq> Plain PBool then Cls (fld_type fld) else BoolOfIntLambda);
          arg_type = Cls (fld_type fld)
      in case handle_optional arg_type required of
           Inl e \<Rightarrow> Inl e
         | Inr (arg_type, required) \<Rightarrow> attach parser arg_name help_text dflt arg_type required)"

text \<open>The same body with line 74 replaced by the plain assignment \<^verbatim>\<open>arg_type = fld.type\<close>.\<close>

definition add_field_plain :: "action list \<Rightarrow> Field \<Rightarrow> py_error + action list" where
  "add_field_plain parser fld =
     (let arg_name = arg_name_of (fld_name fld);
          help_text = metadata_get (fld_metadata fld) ''help'' [];
          required = (fld_default fld = MISSING);
          dflt = (case fld_default fld of MISSING \<Rightarrow> VNone | Default d \<Rightarrow> d);
          arg_type = Cls (fld_type fld);
          arg_type = Cls (fld_type fld)
      in case handle_optional arg_type required of
           Inl e \<Rightarrow> Inl e
         | Inr (arg_type, required) \<Rightarrow> attach parser arg_name help_text dflt arg_type required)"

text \<open>The same body with line 74 removed.\<close>

definition add_field_removed :: "action list \<Rightarrow> Field \<Rightarrow> py_error + action list" where
  "add_field_removed parser fld =
     (let arg_name = arg_name_of (fld_name fld);
          help_text = metadata_get (fld_metadata fld) ''help'' [];
          required = (fld_default fld = MISSING);
          dflt = (case fld_default fld of MISSING \<Rightarrow> VNone | Default d \<Rightarrow> d);
          arg_type = Cls (fld_type fld)
      in case handle_optional arg_type required of
           Inl e \<Rightarrow> Inl e
         | Inr (arg_type, required) \<Rightarrow> attach parser arg_name help_text dflt arg_type required)"

text \<open>The loop \<^verbatim>\<open>for fld in fields(cls)\<close> around a body.\<close>

fun for_fields ::
  "(action list \<Rightarrow> Field \<Rightarrow> py_error + action list) \<Rightarrow> action list \<Rightarrow> Field list
     \<Rightarrow> py_error + action list" where
  "for_fields body parser [] = Inr parser"
| "for_fields body parser (fld # rest) =
     (case body parser fld of
        Inl e \<Rightarrow> Inl e
      | Inr parser' \<Rightarrow> for_fields body parser' rest)"

text \<open>
  \<^verbatim>\<open>from_cli\<close> around a loop body: build the parser, parse the arguments of the
  process, construct the instance from the namespace.
\<close>

definition from_cli_with ::
  "(action list \<Rightarrow> Field \<Rightarrow> py_error + action list) \<Rightarrow> dataclass \<Rightarrow> string list \<Rightarrow> filesystem
     \<Rightarrow> (py_error + inst) \<times> filesystem" where
  "from_cli_with body cls argv fs =
     (case for_fields body ArgumentParser (cls_fields cls) of
        Inl e \<Rightarrow> (Inl e, fs)
      | Inr parser \<Rightarrow>
          (case parse_args parser argv of
             Inl e \<Rightarrow> (Inl e, fs)
           | Inr args \<Rightarrow> construct cls args fs))"

definition from_cli :: "dataclass \<Rightarrow> string list \<Rightarrow> filesystem \<Rightarrow> (py_error + inst) \<times> filesystem" where
  "from_cli = from_cli_with add_field"

section \<open>Example records\<close>

text \<open>
  A required field \<^verbatim>\<open>x: int\<close> and an optional field \<^verbatim>\<open>y: int = 5\<close>, with any
  metadata.
\<close>

definition field_x :: "(string \<times> string) list \<Rightarrow> Field" where
  "field_x md =
     \<lparr>fld_name = ''x'', fld_type = Plain PInt, fld_default = MISSING, fld_metadata = md\<rparr>"

definition field_y :: "(string \<times> string) list \<Rightarrow> Field" where
  "field_y md =
     \<lparr>fld_name = ''y'', fld_type = Plain PInt, fld_default = Default (VInt 5), fld_metadata = md\<rparr>"

text \<open>A subclass of \<open>BaseConfig\<close> with one more field, whose help text has two lines.\<close>

definition noted_config :: dataclass where
  "noted_config =
     config_subclass ''noted_config''
       [\<lparr>fld_name = ''note'', fld_type = Plain PStr, fld_default = Default (VStr ''none''),
         fld_metadata = [(''help'', ''A note.'' @ [CHR 0x0A] @ ''Kept with the run.'')]\<rparr>]"





section \<open>Properties of plot\_style.py\<close>

lemma sublist_no_colormap_message: "sublist name (no_colormap_message name)"
  unfolding no_colormap_message_def sublist_def by (metis append.assoc)

lemma comprehension_total:
  assumes "\<And>x. x \<in> set xs \<Longrightarrow> f x = Inr (g x)"
  shows "comprehension f xs = Inr (map g xs)"
  using assms by (induction xs) simp_all


text \<open>
  C8: a name that is a key of the explicit mapping gets the mapped colormap, whatever
  the cmocean module holds under it; any other name that is an attribute of the cmocean
  module gets that attribute; every remaining name raises a \<open>ValueError\<close> whose message
  contains the name, and no value is returned.
\<close>

theorem get_colormap_resolution:
  "(map_of (mapping heat) name = Some c \<longrightarrow> get_colormap heat cm_dict name = Inr c) \<and>
   (map_of (mapping heat) name = None \<longrightarrow> cm_dict name = Some c \<longrightarrow>
      get_colormap heat cm_dict name = Inr c) \<and>
   (map_of (mapping heat) name = None \<longrightarrow> cm_dict name = None \<longrightarrow>
      (\<exists>msg. get_colormap heat cm_dict name = Inl (ValueError msg) \<and> sublist name msg))"
  by (auto simp: get_colormap_def sublist_no_colormap_message)

theorem get_colormap_resolution_witness:
  "get_colormap (0::nat) [''heatmap'' \<mapsto> 1, ''ice'' \<mapsto> 2] ''heatmap'' = Inr 0 \<and>
   get_colormap (0::nat) [''heatmap'' \<mapsto> 1, ''ice'' \<mapsto> 2] ''ice'' = Inr 2 \<and>
   (\<exists>msg. get_colormap (0::nat) [''heatmap'' \<mapsto> 1, ''ice'' \<mapsto> 2] ''salt''
            = Inl (ValueError msg) \<and> sublist ''salt'' msg)"
proof -
  let ?cm = "[''heatmap'' \<mapsto> (1::nat), ''ice'' \<mapsto> 2]"
  have h: "map_of (mapping (0::nat)) ''heatmap'' = Some 0"
    and i: "map_of (mapping (0::nat)) ''ice'' = None" "?cm ''ice'' = Some 2"
    and s: "map_of (mapping (0::nat)) ''salt'' = None" "?cm ''salt'' = None"
    by (simp_all add: mapping_def)
  from h get_colormap_resolution [of 0 "''heatmap''" 0 ?cm]
  have "get_colormap (0::nat) ?cm ''heatmap'' = Inr 0" by blast
  moreover from i get_colormap_resolution [of 0 "''ice''" 2 ?cm]
  have "get_colormap (0::nat) ?cm ''ice'' = Inr 2" by blast
  moreover from s get_colormap_resolution [of 0 "''salt''" 0 ?cm]
  have "\<exists>msg. get_colormap (0::nat) ?cm ''salt'' = Inl (ValueError msg) \<and> sublist ''salt'' msg"
    by blast
  ultimately show ?thesis by blast
qed



section \<open>Properties of BaseConfig construction\<close>

lemma post_init_base:
  "post_init \<lparr>inst_class = c, inst_dict = [(''verbose'', v), (''log_file'', lf), (''log_mode'', m)]\<rparr> fs =
     (if \<not> py_in v [VInt 0, VInt 1, VInt 2, VInt 3] then (Inl (ValueError (invalid_verbosity v)), fs)
      else case ensure_log_file fs lf of
             (Inl e, fs') \<Rightarrow> (Inl e, fs')
           | (Inr _, fs') \<Rightarrow>
               if \<not> py_in m [VStr ''w'', VStr ''a''] then (Inl (ValueError (invalid_log_mode m)), fs')
               else (Inr (), fs'))"
  by (simp add: post_init_def getattr_def split: prod.split sum.split)

lemma new_BaseConfig_eq:
  "new_BaseConfig v lf m fs =
     (if \<not> py_in v [VInt 0, VInt 1, VInt 2, VInt 3] then (Inl (ValueError (invalid_verbosity v)), fs)
      else case ensure_log_file fs lf of
             (Inl e, fs') \<Rightarrow> (Inl e, fs')
           | (Inr _, fs') \<Rightarrow>
               if \<not> py_in m [VStr ''w'', VStr ''a''] then (Inl (ValueError (invalid_log_mode m)), fs')
               else (Inr \<lparr>inst_class = BaseConfig,
                          inst_dict = [(''verbose'', v), (''log_file'', lf), (''log_mode'', m)]\<rparr>, fs'))"
  unfolding new_BaseConfig_def construct_def
  by (simp add: BaseConfig_def post_init_base split: prod.split sum.split)

lemma py_in_verbose: "py_in (VInt n) [VInt 0, VInt 1, VInt 2, VInt 3] \<longleftrightarrow> n \<in> {0, 1, 2, 3}"
  by (auto simp: py_in_def)

lemma py_in_log_mode: "py_in (VStr s) [VStr ''w'', VStr ''a''] \<longleftrightarrow> s \<in> {''w'', ''a''}"
  by (auto simp: py_in_def)

text \<open>
  C2, as stated, fails for the log mode: the log-file block runs between the two checks,
  and what it raises comes before the \<open>ValueError\<close> of the log mode. With a valid
  verbosity and the invalid log mode \<^verbatim>\<open>"x"\<close>, a log file given as a \<^verbatim>\<open>str\<close> raises
  \<open>AttributeError\<close> (a \<^verbatim>\<open>str\<close> has no \<^verbatim>\<open>exists\<close>), and a log file whose parent is a
  regular file raises \<open>FileExistsError\<close> from \<^verbatim>\<open>mkdir\<close>.
\<close>

theorem log_mode_check_counterexample:
  "fst (new_BaseConfig (VInt 0) (VStr ''run.log'') (VStr ''x'') Map.empty)
     = Inl (AttributeError ''exists'') \<and>
   fst (new_BaseConfig (VInt 0) (VPath (Path False [''logs'', ''run.log''])) (VStr ''x'')
          [Path False [''logs''] \<mapsto> File])
     = Inl FileExistsError"
  by (simp add: new_BaseConfig_eq py_in_def ensure_log_file_def exists_def mkdir_parents_def
      lineage_def parent_def)

text \<open>
  C2, amended: constructing \<open>BaseConfig\<close> with a verbosity that is not in
  \<^verbatim>\<open>[0, 1, 2, 3]\<close> raises the \<open>ValueError\<close> of the verbosity and returns no instance, whatever
  the other fields are. With a valid verbosity, an error of the log-file block is the
  error of the construction. With a log mode that is not in \<^verbatim>\<open>["w", "a"]\<close>, construction
  raises \<open>ValueError\<close> whenever the log-file block raises nothing itself (as for
  \<^verbatim>\<open>log_file=None\<close>): the one of the log mode when the verbosity is valid, the one of the
  verbosity otherwise. With a verbosity and a log mode in their lists and
  \<^verbatim>\<open>log_file=None\<close> it returns the instance and leaves the disk alone.
\<close>

theorem BaseConfig_validation:
  "(\<not> py_in v [VInt 0, VInt 1, VInt 2, VInt 3] \<longrightarrow>
      fst (new_BaseConfig v lf m fs) = Inl (ValueError (invalid_verbosity v))) \<and>
   (py_in v [VInt 0, VInt 1, VInt 2, VInt 3] \<longrightarrow> fst (ensure_log_file fs lf) = Inl e \<longrightarrow>
      fst (new_BaseConfig v lf m fs) = Inl e) \<and>
   (\<not> py_in m [VStr ''w'', VStr ''a''] \<longrightarrow> fst (ensure_log_file fs lf) = Inr () \<longrightarrow>
      fst (new_BaseConfig v lf m fs)
        = Inl (ValueError (if py_in v [VInt 0, VInt 1, VInt 2, VInt 3] then invalid_log_mode m
                           else invalid_verbosity v))) \<and>
   (py_in v [VInt 0, VInt 1, VInt 2, VInt 3] \<longrightarrow> py_in m [VStr ''w'', VStr ''a''] \<longrightarrow>
      new_BaseConfig v VNone m fs =
        (Inr \<lparr>inst_class = BaseConfig,
               inst_dict = [(''verbose'', v), (''log_file'', VNone), (''log_mode'', m)]\<rparr>, fs))"
  by (auto simp: new_BaseConfig_eq ensure_log_file_def split: prod.split sum.split)

theorem BaseConfig_validation_witness:
  "fst (new_BaseConfig (VInt 4) VNone (VStr ''w'') Map.empty) = Inl (ValueError (invalid_verbosity (VInt 4))) \<and>
   fst (new_BaseConfig (VInt 0) (VStr ''run.log'') (VStr ''w'') Map.empty) = Inl (AttributeError ''exists'') \<and>
   fst (new_BaseConfig (VInt 0) VNone (VStr ''x'') Map.empty)
     = Inl (ValueError (invalid_log_mode (VStr ''x''))) \<and>
   new_BaseConfig (VInt 3) VNone (VStr ''a'') Map.empty =
     (Inr \<lparr>inst_class = BaseConfig,
            inst_dict = [(''verbose'', VInt 3), (''log_file'', VNone), (''log_mode'', VStr ''a'')]\<rparr>, Map.empty)"
proof -
  have a: "\<not> py_in (VInt 4) [VInt 0, VInt 1, VInt 2, VInt 3]"
    and b: "\<not> py_in (VStr ''x'') [VStr ''w'', VStr ''a'']"
    and c: "fst (ensure_log_file Map.empty VNone) = Inr ()"
    and d: "py_in (VInt 3) [VInt 0, VInt 1, VInt 2, VInt 3]"
    and e: "py_in (VStr ''a'') [VStr ''w'', VStr ''a'']"
    and f: "py_in (VInt 0) [VInt 0, VInt 1, VInt 2, VInt 3]"
    and g: "fst (ensure_log_file Map.empty (VStr ''run.log'')) = Inl (AttributeError ''exists'')"
    by (simp_all add: py_in_def ensure_log_file_def)
  from a BaseConfig_validation [of "VInt 4" VNone "VStr ''w''" Map.empty]
  have "fst (new_BaseConfig (VInt 4) VNone (VStr ''w'') Map.empty)
          = Inl (ValueError (invalid_verbosity (VInt 4)))" by blast
  moreover from f g
    BaseConfig_validation [of "VInt 0" "VStr ''run.log''" "VStr ''w''" Map.empty "AttributeError ''exists''"]
  have "fst (new_BaseConfig (VInt 0) (VStr ''run.log'') (VStr ''w'') Map.empty)
          = Inl (AttributeError ''exists'')" by blast
  moreover from b c f BaseConfig_validation [of "VInt 0" VNone "VStr ''x''" Map.empty]
  have "fst (new_BaseConfig (VInt 0) VNone (VStr ''x'') Map.empty)
          = Inl (ValueError (invalid_log_mode (VStr ''x'')))"
    by simp
  moreover from d e BaseConfig_validation [of "VInt 3" VNone "VStr ''a''" Map.empty]
  have "new_BaseConfig (VInt 3) VNone (VStr ''a'') Map.empty =
     (Inr \<lparr>inst_class = BaseConfig,
            inst_dict = [(''verbose'', VInt 3), (''log_file'', VNone), (''log_mode'', VStr ''a'')]\<rparr>, Map.empty)"
    by blast
  ultimately show ?thesis by blast
qed


text \<open>
  C5, as stated, fails: the accepted log modes are \<^verbatim>\<open>"w"\<close> and \<^verbatim>\<open>"a"\<close>, and the words
  \<^verbatim>\<open>"write"\<close> and \<^verbatim>\<open>"append"\<close> are rejected with \<open>ValueError\<close>.
\<close>

theorem log_mode_write_append_counterexample:
  "fst (new_BaseConfig (VInt 0) VNone (VStr ''write'') Map.empty)
     = Inl (ValueError (invalid_log_mode (VStr ''write''))) \<and>
   fst (new_BaseConfig (VInt 0) VNone (VStr ''append'') Map.empty)
     = Inl (ValueError (invalid_log_mode (VStr ''append'')))"
  by (simp add: new_BaseConfig_eq py_in_def ensure_log_file_def)

text \<open>
  C5, amended: with the other fields valid (a verbosity in its list and a log-file block
  that raises nothing), a string log mode is accepted exactly when it is \<^verbatim>\<open>"w"\<close> or
  \<^verbatim>\<open>"a"\<close>: then construction returns the instance holding the three values, and for every
  other string it raises the \<open>ValueError\<close> of the log mode.
\<close>

theorem log_mode_accepted_values:
  assumes "py_in v [VInt 0, VInt 1, VInt 2, VInt 3]" and "fst (ensure_log_file fs lf) = Inr ()"
  shows "((\<exists>self. fst (new_BaseConfig v lf (VStr s) fs) = Inr self) \<longleftrightarrow> s = ''w'' \<or> s = ''a'') \<and>
         (s = ''w'' \<or> s = ''a'' \<longrightarrow>
            fst (new_BaseConfig v lf (VStr s) fs)
              = Inr \<lparr>inst_class = BaseConfig,
                     inst_dict = [(''verbose'', v), (''log_file'', lf), (''log_mode'', VStr s)]\<rparr>) \<and>
         (s \<noteq> ''w'' \<and> s \<noteq> ''a'' \<longrightarrow>
            fst (new_BaseConfig v lf (VStr s) fs) = Inl (ValueError (invalid_log_mode (VStr s))))"
  using assms
  by (auto simp: new_BaseConfig_eq py_in_log_mode split: prod.split sum.split)

theorem log_mode_accepted_values_witness:
  "fst (new_BaseConfig (VInt 0) VNone (VStr ''w'') Map.empty)
     = Inr \<lparr>inst_class = BaseConfig,
            inst_dict = [(''verbose'', VInt 0), (''log_file'', VNone), (''log_mode'', VStr ''w'')]\<rparr> \<and>
   (\<exists>self. fst (new_BaseConfig (VInt 0) VNone (VStr ''a'') Map.empty) = Inr self) \<and>
   fst (new_BaseConfig (VInt 0) VNone (VStr ''write'') Map.empty)
     = Inl (ValueError (invalid_log_mode (VStr ''write'')))"
proof -
  have v: "py_in (VInt 0) [VInt 0, VInt 1, VInt 2, VInt 3]"
    and l: "fst (ensure_log_file Map.empty VNone) = Inr ()"
    by (simp_all add: py_in_def ensure_log_file_def)
  show ?thesis
    using log_mode_accepted_values [OF v l, of "''w''"]
      log_mode_accepted_values [OF v l, of "''a''"]
      log_mode_accepted_values [OF v l, of "''write''"]
    by simp
qed









section \<open>Properties of from\_cli\<close>

lemma add_field_plain_eq: "add_field_plain = add_field"
  by (intro ext) (simp add: add_field_plain_def add_field_def)

lemma add_field_removed_eq: "add_field_removed = add_field"
  by (intro ext) (simp add: add_field_removed_def add_field_def)

text \<open>
  C7: the converter that line 74 computes for boolean fields is dead code. \<open>from_cli\<close>
  with that line replaced by the plain assignment of the declared type, and \<open>from_cli\<close>
  with the line removed, return what \<open>from_cli\<close> as written returns, for every record
  type, every argument list and every state of the disk.
\<close>

theorem bool_coercion_is_dead_code:
  "from_cli_with add_field_plain cls argv fs = from_cli cls argv fs \<and>
   from_cli_with add_field_removed cls argv fs = from_cli cls argv fs"
  by (simp add: from_cli_def add_field_plain_eq add_field_removed_eq)

lemma xy_parser:
  "for_fields add_field ArgumentParser (cls_fields (config_subclass name [field_x mx, field_y my])) =
   Inr [\<lparr>option_strings = [''-h'', ''--help''], dest = ''help'',
         act_kind = ShowHelp, act_type = None, act_default = VNone,
         act_required = False\<rparr>,
      \<lparr>option_strings = [''--verbose''], dest = ''verbose'',
         act_kind = Store, act_type = Some (Cls (Plain PInt)),
         act_default = VInt 0, act_required = False\<rparr>,
      \<lparr>option_strings = [''--log-file''], dest = ''log_file'',
         act_kind = Store, act_type = Some (Cls (Plain PPath)),
         act_default = VNone, act_required = False\<rparr>,
      \<lparr>option_strings = [''--log-mode''], dest = ''log_mode'',
         act_kind = Store, act_type = Some (Cls (Plain PStr)),
         act_default = VStr ''w'', act_required = False\<rparr>,
      \<lparr>option_strings = [''--x''], dest = ''x'', act_kind = Store,
         act_type = Some (Cls (Plain PInt)), act_default = VNone,
         act_required = True\<rparr>,
      \<lparr>option_strings = [''--y''], dest = ''y'', act_kind = Store,
         act_type = Some (Cls (Plain PInt)), act_default = VInt 5,
         act_required = False\<rparr>]"
  by (simp add: config_subclass_def BaseConfig_def field_x_def field_y_def add_field_def
      handle_optional_def attach_def add_argument_def new_action_def dest_of_def
      arg_name_of_def ArgumentParser_def metadata_get_def Let_def)


lemma py_int_3: "py_int ''3'' = Some 3"
  by code_simp

lemma find_action_simps:
  "find_action (a # rest) t = (if t \<in> set (option_strings a) then Some a else find_action rest t)"
  "find_action [] t = None"
  by (simp_all add: find_action_def)

text \<open>
  C4: for a subclass of \<open>BaseConfig\<close> with a required field \<open>x\<close> and an optional field
  \<open>y\<close> of default 5, \<open>from_cli\<close> on the empty argument list stops in \<open>parse_args\<close> with the
  usage error that \<^verbatim>\<open>--x\<close> is required (nothing is constructed, the disk is unchanged),
  and on \<^verbatim>\<open>['--x', '3']\<close> it returns the instance with \<open>x = 3\<close> and \<open>y = 5\<close>.
\<close>

theorem from_cli_required_field:
  "(\<exists>parser.
      for_fields add_field ArgumentParser
        (cls_fields (config_subclass name [field_x mx, field_y my])) = Inr parser \<and>
      parse_args parser [] = Inl (UsageError (MissingRequired [''--x'']))) \<and>
   from_cli (config_subclass name [field_x mx, field_y my]) [] fs
     = (Inl (UsageError (MissingRequired [''--x''])), fs) \<and>
   from_cli (config_subclass name [field_x mx, field_y my]) [''--x'', ''3''] fs
     = (Inr \<lparr>inst_class = config_subclass name [field_x mx, field_y my],
              inst_dict = [(''verbose'', VInt 0), (''log_file'', VNone), (''log_mode'', VStr ''w''),
                           (''x'', VInt 3), (''y'', VInt 5)]\<rparr>, fs)"
proof -
  let ?cls = "config_subclass name [field_x mx, field_y my]"
  obtain parser where p: "for_fields add_field ArgumentParser (cls_fields ?cls) = Inr parser"
    and e: "parse_args parser [] = Inl (UsageError (MissingRequired [''--x'']))"
    and a: "parse_args parser [''--x'', ''3''] =
              Inr [(''verbose'', VInt 0), (''log_file'', VNone), (''log_mode'', VStr ''w''),
                   (''x'', VInt 3), (''y'', VInt 5)]"
    unfolding xy_parser parse_args_def
    by (simp add: outside_model_def find_action_simps py_int_3)
  have c: "construct ?cls [(''verbose'', VInt 0), (''log_file'', VNone), (''log_mode'', VStr ''w''),
                   (''x'', VInt 3), (''y'', VInt 5)] fs =
       (Inr \<lparr>inst_class = ?cls,
              inst_dict = [(''verbose'', VInt 0), (''log_file'', VNone), (''log_mode'', VStr ''w''),
                           (''x'', VInt 3), (''y'', VInt 5)]\<rparr>, fs)"
    by (simp add: construct_def config_subclass_def BaseConfig_def field_x_def field_y_def
        post_init_def getattr_def py_in_def ensure_log_file_def)
  from p e a c show ?thesis
    by (auto simp: from_cli_def from_cli_with_def)
qed


section \<open>Properties of describe\<close>

lemma split_on_absent: "sep \<notin> set s \<Longrightarrow> split_on sep s = [s]"
  by (induction s) auto

lemma split_on_append:
  "sep \<notin> set x \<Longrightarrow> split_on sep (x @ sep # rest) = x # split_on sep rest"
  by (induction x) auto

lemma split_on_join:
  "xs \<noteq> [] \<Longrightarrow> \<forall>x \<in> set xs. sep \<notin> set x \<Longrightarrow> split_on sep (join [sep] xs) = xs"
  by (induction "[sep]" xs rule: join.induct) (simp_all add: split_on_absent split_on_append)

lemma digit_char_not_lf: "d < 10 \<Longrightarrow> digit_char d \<noteq> CHR 0x0A"
proof
  assume d: "d < 10" and "digit_char d = CHR 0x0A"
  then have "of_char (char_of (48 + d)) = (of_char (CHR 0x0A) :: nat)"
    by (simp add: digit_char_def)
  with d show False by simp
qed

lemma hex_digit_not_lf: "d < 16 \<Longrightarrow> hex_digit d \<noteq> CHR 0x0A"
proof
  assume d: "d < 16" and "hex_digit d = CHR 0x0A"
  then have "of_char (hex_digit d) = (of_char (CHR 0x0A) :: nat)" by simp
  with d show False by (simp add: hex_digit_def split: if_splits)
qed

lemma show_nat_no_lf: "CHR 0x0A \<notin> set (show_nat n)"
proof (induction n rule: show_nat.induct)
  case (1 n)
  show ?case
  proof (cases "n < 10")
    case True
    then show ?thesis using digit_char_not_lf [of n] by (subst show_nat.simps) auto
  next
    case False
    then show ?thesis using 1 digit_char_not_lf [of "n mod 10"]
      by (subst show_nat.simps) auto
  qed
qed

lemma escape_char_no_lf:
  assumes "q \<noteq> CHR 0x0A"
  shows "CHR 0x0A \<notin> set (escape_char q c)"
proof -
  have "(of_char c :: nat) div 16 < 16" "(of_char c :: nat) mod 16 < 16"
    using nat_of_char_less_256 [of c] by (simp_all add: less_mult_imp_div_less)
  then have "CHR 0x0A \<noteq> hex_digit (of_char c div 16)" "CHR 0x0A \<noteq> hex_digit (of_char c mod 16)"
    using hex_digit_not_lf by metis+
  moreover have "\<not> printable (CHR 0x0A)" by (simp add: printable_def)
  ultimately show ?thesis
    using assms by (cases "c = CHR 0x0A") (auto simp: escape_char_def)
qed

lemma repr_str_no_lf: "CHR 0x0A \<notin> set (repr_str s)"
  by (auto simp: repr_str_def Let_def escape_char_no_lf)

lemma py_repr_no_lf: "CHR 0x0A \<notin> set (py_repr v)"
  by (cases v) (auto simp: repr_str_no_lf show_nat_no_lf show_int_def)


lemma type_str_no_lf: "CHR 0x0A \<notin> set (type_str T)"
  by (cases T) (auto simp: type_str_def prim_name_def split: prim.splits)

lemma init_fields_keys:
  "init_fields flds kw = Inr d \<Longrightarrow> map fst d = map fld_name flds"
  by (induction flds arbitrary: d) (auto split: sum.splits option.splits default.splits)

lemma construct_attributes:
  assumes "construct cls kw fs = (Inr self, fs')"
  shows "inst_class self = cls" and "map fst (inst_dict self) = map fld_name (cls_fields cls)"
  using assms
  by (auto simp: construct_def Let_def init_fields_keys
      split: option.splits sum.splits prod.splits)

lemma getattr_field:
  assumes "map fst (inst_dict self) = map fld_name flds" and "f \<in> set flds"
  shows "\<exists>v. getattr self (fld_name f) = Inr v"
proof -
  from assms have "fld_name f \<in> fst ` set (inst_dict self)"
    by (metis image_eqI set_map)
  then obtain v where "map_of (inst_dict self) (fld_name f) = Some v"
    by (meson map_of_eq_None_iff not_Some_eq)
  then show ?thesis by (simp add: getattr_def)
qed

lemma describe_line_shape:
  assumes "getattr self (fld_name f) = Inr v"
  shows "\<exists>pre post. describe_line self f = Inr (pre @ py_repr v @ post) \<and>
           sublist (fld_name f) pre \<and>
           (CHR 0x0A \<notin> set (fld_name f) \<longrightarrow> CHR 0x0A \<notin> set pre) \<and>
           post = ''  '' @ metadata_get (fld_metadata f) ''help'' []"
proof -
  let ?pre = "''  '' @ ljust (fld_name f) 25 @ '': '' @ ljust (type_str (fld_type f)) 25 @ '' = ''"
  let ?post = "''  '' @ metadata_get (fld_metadata f) ''help'' []"
  have "describe_line self f = Inr (?pre @ py_repr v @ ?post)"
    using assms by (simp add: describe_line_def)
  moreover have "sublist (fld_name f) ?pre"
    unfolding ljust_def sublist_def by (metis append.assoc)
  moreover have "CHR 0x0A \<notin> set (fld_name f) \<longrightarrow> CHR 0x0A \<notin> set ?pre"
    using type_str_no_lf [of "fld_type f"] by (auto simp: ljust_def)
  ultimately show ?thesis by blast
qed

text \<open>
  C6, amended: for every validated instance of a class in which no help text contains a
  line feed (names are identifiers and contain none), \<open>describe\<close> with
  \<^verbatim>\<open>return_string=True\<close> returns a text of as many lines as the class has fields, plus
  one: the header, then one line per field in declaration order, which contains the
  field's name and the \<^verbatim>\<open>repr\<close> of its current value. Lines are what stands between
  line feeds.
\<close>

theorem describe_lines:
  assumes valid: "construct cls kw fs = (Inr self, fs')"
    and names: "CHR 0x0A \<notin> set (cls_name cls)" "\<forall>f \<in> set (cls_fields cls). CHR 0x0A \<notin> set (fld_name f)"
    and helps: "\<forall>f \<in> set (cls_fields cls). CHR 0x0A \<notin> set (metadata_get (fld_metadata f) ''help'' [])"
  shows "\<exists>text field_lines.
           describe self True = Inr (Some text, []) \<and>
           split_on CHR 0x0A text = describe_header self # field_lines \<and>
           length (split_on CHR 0x0A text) = length (cls_fields cls) + 1 \<and>
           (\<forall>i < length (cls_fields cls).
              \<exists>v. getattr self (fld_name (cls_fields cls ! i)) = Inr v \<and>
                  describe_line self (cls_fields cls ! i) = Inr (field_lines ! i) \<and>
                  sublist (fld_name (cls_fields cls ! i)) (field_lines ! i) \<and>
                  sublist (py_repr v) (field_lines ! i))"
proof -
  let ?flds = "cls_fields cls"
  note attrs = construct_attributes [OF valid]
  define val where "val f = (case getattr self (fld_name f) of Inr v \<Rightarrow> v | Inl _ \<Rightarrow> VNone)" for f :: Field
  have get: "getattr self (fld_name f) = Inr (val f)" if "f \<in> set ?flds" for f
    using getattr_field [OF attrs(2) that] by (auto simp: val_def)
  define line where "line f = (case describe_line self f of Inr l \<Rightarrow> l | Inl _ \<Rightarrow> [])" for f :: Field
  have line: "describe_line self f = Inr (line f)"
      "sublist (fld_name f) (line f)" "sublist (py_repr (val f)) (line f)"
      "CHR 0x0A \<notin> set (line f)"
    if "f \<in> set ?flds" for f
  proof -
    from describe_line_shape [OF get [OF that]] obtain pre post
      where l: "describe_line self f = Inr (pre @ py_repr (val f) @ post)"
        and pre: "sublist (fld_name f) pre" "CHR 0x0A \<notin> set (fld_name f) \<longrightarrow> CHR 0x0A \<notin> set pre"
        and post: "post = ''  '' @ metadata_get (fld_metadata f) ''help'' []"
      by blast
    from l show "describe_line self f = Inr (line f)" by (simp add: line_def)
    from l have eq: "line f = pre @ py_repr (val f) @ post" by (simp add: line_def)
    show "sublist (fld_name f) (line f)"
      unfolding eq using pre(1) by (meson sublist_appendI sublist_order.order_trans sublist_append_rightI)
    show "sublist (py_repr (val f)) (line f)"
      unfolding eq by (meson sublist_appendI)
    show "CHR 0x0A \<notin> set (line f)"
      unfolding eq using pre(2) post names(2) helps that py_repr_no_lf [of "val f"] by auto
  qed
  have comp: "comprehension (describe_line self) ?flds = Inr (map line ?flds)"
    by (rule comprehension_total) (rule line(1))
  let ?lines = "describe_header self # map line ?flds"
  have d: "describe self True = Inr (Some (join [CHR 0x0A] ?lines), [])"
    using comp attrs(1) by (simp add: describe_def)
  have hdr: "CHR 0x0A \<notin> set (describe_header self)"
    using names(1) attrs(1) by (simp add: describe_header_def)
  have split: "split_on CHR 0x0A (join [CHR 0x0A] ?lines) = ?lines"
    by (rule split_on_join) (use hdr line(4) in auto)
  have "\<forall>i < length ?flds.
          \<exists>v. getattr self (fld_name (?flds ! i)) = Inr v \<and>
              describe_line self (?flds ! i) = Inr (map line ?flds ! i) \<and>
              sublist (fld_name (?flds ! i)) (map line ?flds ! i) \<and>
              sublist (py_repr v) (map line ?flds ! i)"
    using get line by (metis nth_map nth_mem)
  with d split show ?thesis by (intro exI [of _ "join [CHR 0x0A] ?lines"] exI [of _ "map line ?flds"]) simp
qed


lemma construct_noted_config:
  "construct noted_config [] Map.empty =
     (Inr \<lparr>inst_class = noted_config,
            inst_dict = [(''verbose'', VInt 0), (''log_file'', VNone), (''log_mode'', VStr ''w''),
                         (''note'', VStr ''none'')]\<rparr>, Map.empty)"
  by (simp add: construct_def noted_config_def config_subclass_def BaseConfig_def
      post_init_def getattr_def py_in_def ensure_log_file_def)

text \<open>
  C6, as stated, fails: the help text is written into the line as it is, so a field
  whose help text has two lines makes the text one line longer. The validated default
  instance of \<open>noted_config\<close> has 4 fields and its description 6 lines.
\<close>

theorem describe_line_count_counterexample:
  "\<exists>self text.
     construct noted_config [] Map.empty = (Inr self, Map.empty) \<and>
     describe self True = Inr (Some text, []) \<and>
     length (cls_fields (inst_class self)) = 4 \<and>
     length (split_on CHR 0x0A text) = 6"
proof -
  let ?self = "\<lparr>inst_class = noted_config,
            inst_dict = [(''verbose'', VInt 0), (''log_file'', VNone), (''log_mode'', VStr ''w''),
                         (''note'', VStr ''none'')]\<rparr>"
  have "case describe ?self True of
          Inr (Some text, out) \<Rightarrow> out = [] \<and> length (split_on CHR 0x0A text) = 6
        | _ \<Rightarrow> False"
    by code_simp
  then obtain rendered where "describe ?self True = Inr (Some rendered, [])"
    "length (split_on CHR 0x0A rendered) = 6"
    by (auto split: sum.splits option.splits prod.splits)
  moreover have "length (cls_fields (inst_class ?self)) = 4"
    by (simp add: noted_config_def config_subclass_def BaseConfig_def)
  ultimately show ?thesis using construct_noted_config by blast
qed

lemma construct_BaseConfig_defaults:
  "construct BaseConfig [] Map.empty =
     (Inr \<lparr>inst_class = BaseConfig,
            inst_dict = [(''verbose'', VInt 0), (''log_file'', VNone), (''log_mode'', VStr ''w'')]\<rparr>,
      Map.empty)"
  by (simp add: construct_def BaseConfig_def post_init_def getattr_def py_in_def
      ensure_log_file_def)

theorem describe_lines_witness:
  "\<exists>text field_lines.
     describe \<lparr>inst_class = BaseConfig,
               inst_dict = [(''verbose'', VInt 0), (''log_file'', VNone), (''log_mode'', VStr ''w'')]\<rparr>
       True = Inr (Some text, []) \<and>
     length (split_on CHR 0x0A text) = 4 \<and>
     length field_lines = 3 \<and>
     sublist ''verbose'' (field_lines ! 0) \<and> sublist ''0'' (field_lines ! 0)"
proof -
  let ?self = "\<lparr>inst_class = BaseConfig,
               inst_dict = [(''verbose'', VInt 0), (''log_file'', VNone), (''log_mode'', VStr ''w'')]\<rparr>"
  have n: "CHR 0x0A \<notin> set (cls_name BaseConfig)"
    "\<forall>f \<in> set (cls_fields BaseConfig). CHR 0x0A \<notin> set (fld_name f)"
    and h: "\<forall>f \<in> set (cls_fields BaseConfig).
              CHR 0x0A \<notin> set (metadata_get (fld_metadata f) ''help'' [])"
    by (simp_all add: BaseConfig_def metadata_get_def)
  from describe_lines [OF construct_BaseConfig_defaults n h]
  obtain rendered field_lines where d: "describe ?self True = Inr (Some rendered, [])"
    and s: "split_on CHR 0x0A rendered = describe_header ?self # field_lines"
    and l: "length (split_on CHR 0x0A rendered) = length (cls_fields BaseConfig) + 1"
    and f: "\<forall>i < length (cls_fields BaseConfig).
              \<exists>v. getattr ?self (fld_name (cls_fields BaseConfig ! i)) = Inr v \<and>
                  describe_line ?self (cls_fields BaseConfig ! i) = Inr (field_lines ! i) \<and>
                  sublist (fld_name (cls_fields BaseConfig ! i)) (field_lines ! i) \<and>
                  sublist (py_repr v) (field_lines ! i)"
    by blast
  have len: "length (cls_fields BaseConfig) = 3" by (simp add: BaseConfig_def)
  from f [rule_format, of 0] len
  have "sublist ''verbose'' (field_lines ! 0)" "sublist (py_repr (VInt 0)) (field_lines ! 0)"
    by (auto simp: BaseConfig_def getattr_def)
  moreover have "py_repr (VInt 0) = ''0''" by code_simp
  moreover from s l len have "length field_lines = 3" by simp
  ultimately show ?thesis using d l len by auto
qed

section \<open>Properties of from\_cli: required arguments and toggles\<close>

subsection \<open>The parser that the loop builds\<close>
















text \<open>
  The attribute that \<^verbatim>\<open>argparse\<close> derives from the flag of a field is the name of the
  field, for a name that is an identifier and does not begin with an underscore.
\<close>

lemma dest_of_arg_name_of:
  assumes "n \<noteq> []" and "hd n \<noteq> CHR ''_''" and "CHR ''-'' \<notin> set n"
  shows "dest_of (arg_name_of n) = n"
proof -
  obtain c cs where n: "n = c # cs" using assms(1) by (cases n) simp_all
  with assms(2,3) have c: "c \<noteq> CHR ''_''" "c \<noteq> CHR ''-''" by auto
  have "map (\<lambda>c. if c = CHR ''-'' then CHR ''_'' else c)
          (map (\<lambda>c. if c = CHR ''_'' then CHR ''-'' else c) cs) = cs"
    using assms(3) unfolding n by (induction cs) auto
  with c show ?thesis by (simp add: n dest_of_def arg_name_of_def)
qed

subsection \<open>What parse\_args leaves in the namespace\<close>
















subsection \<open>From the namespace to the instance\<close>




subsection \<open>Boolean fields\<close>








subsection \<open>Required fields and fallback values\<close>












end
